theory Spec2Isabelle
  imports Complex_Main
begin

section \<open>JavaScript values used by the grid code\<close>

text \<open>
  Strings are lists of characters. The case maps and the white-space class are the
  JavaScript ones restricted to ASCII text, which is what grid labels, selectors and the
  error messages matched by the program consist of. Grid indices are JavaScript numbers
  holding integers; they are modelled as \<open>int\<close>, which is exact while every intermediate
  value stays below \<open>2 ^ 53\<close>.
\<close>

definition isSpace :: "char \<Rightarrow> bool" where
  "isSpace c = (c \<in> set [CHR 0x09, CHR 0x0A, CHR 0x0B, CHR 0x0C, CHR 0x0D, CHR 0x20])"

definition isUpper :: "char \<Rightarrow> bool" where
  "isUpper c = (65 \<le> (of_char c :: nat) \<and> (of_char c :: nat) \<le> 90)"

definition isLower :: "char \<Rightarrow> bool" where
  "isLower c = (97 \<le> (of_char c :: nat) \<and> (of_char c :: nat) \<le> 122)"

definition isDigit :: "char \<Rightarrow> bool" where
  "isDigit c = (48 \<le> (of_char c :: nat) \<and> (of_char c :: nat) \<le> 57)"

definition upperChar :: "char \<Rightarrow> char" where
  "upperChar c = (if isLower c then char_of ((of_char c :: nat) - 32) else c)"

definition lowerChar :: "char \<Rightarrow> char" where
  "lowerChar c = (if isUpper c then char_of ((of_char c :: nat) + 32) else c)"

definition toUpperCase :: "string \<Rightarrow> string" where
  "toUpperCase s = map upperChar s"

definition toLowerCase :: "string \<Rightarrow> string" where
  "toLowerCase s = map lowerChar s"

definition trim :: "string \<Rightarrow> string" where
  "trim s = rev (dropWhile isSpace (rev (dropWhile isSpace s)))"

text \<open>\<open>s.startsWith(t)\<close> and \<open>s.includes(t)\<close>.\<close>

fun startsWith :: "string \<Rightarrow> string \<Rightarrow> bool" where
  "startsWith s [] = True"
| "startsWith [] (t # ts) = False"
| "startsWith (c # cs) (t # ts) = (c = t \<and> startsWith cs ts)"

fun strIncludes :: "string \<Rightarrow> string \<Rightarrow> bool" where
  "strIncludes [] t = (t = [])"
| "strIncludes (c # cs) t = (startsWith (c # cs) t \<or> strIncludes cs t)"

text \<open>\<open>String(n)\<close> for an integer \<open>n\<close>: its decimal digits, with a sign when negative.\<close>

definition digitChar :: "nat \<Rightarrow> char" where
  "digitChar d = char_of (48 + d)"

function showNat :: "nat \<Rightarrow> string" where
  "showNat n = (if n < 10 then [digitChar n] else showNat (n div 10) @ [digitChar (n mod 10)])"
  by pat_completeness auto
termination
  by (relation "measure id") auto

declare showNat.simps [simp del]

definition showInt :: "int \<Rightarrow> string" where
  "showInt i = (if i < 0 then CHR ''-'' # showNat (nat (- i)) else showNat (nat i))"

text \<open>\<open>Number.parseInt(text, 10)\<close> on a string of decimal digits.\<close>

definition charCode :: "char \<Rightarrow> int" where
  "charCode c = int (of_char c)"

definition fromCharCode :: "int \<Rightarrow> char" where
  "fromCharCode n = char_of (nat n)"

definition parseIntDigits :: "string \<Rightarrow> int" where
  "parseIntDigits ds = foldl (\<lambda>acc c. acc * 10 + (charCode c - 48)) 0 ds"

section \<open>CoordinateGrid: \<open>colLabel\<close> and \<open>parseCell\<close>\<close>

definition CELL_SIZE :: int where
  "CELL_SIZE = 100"

definition LABEL_MARGIN :: int where
  "LABEL_MARGIN = 50"

text \<open>
  \<^verbatim>\<open>while (i >= 0) { label = String.fromCharCode(65 + (i % 26)) + label;
                    i = Math.floor(i / 26) - 1; }\<close>
\<close>

function colLabelLoop :: "int \<Rightarrow> string \<Rightarrow> string" where
  "colLabelLoop i label =
     (if i \<ge> 0 then colLabelLoop (i div 26 - 1) (fromCharCode (65 + i mod 26) # label) else label)"
  by pat_completeness auto
termination
  by (relation "measure (\<lambda>(i, label). nat (i + 1))") auto

declare colLabelLoop.simps [simp del]

definition colLabel :: "int \<Rightarrow> string" where
  "colLabel index = colLabelLoop index []"

record cell =
  col :: int
  row :: int

text \<open>The regular expression \<^verbatim>\<open>/^([A-Z]+)(\d+)$/\<close>: the two groups of a match.\<close>

definition matchCell :: "string \<Rightarrow> (string \<times> string) option" where
  "matchCell s =
     (let letters = takeWhile isUpper s; digits = dropWhile isUpper s
      in if letters \<noteq> [] \<and> digits \<noteq> [] \<and> list_all isDigit digits
         then Some (letters, digits) else None)"

definition colOfLetters :: "string \<Rightarrow> int" where
  "colOfLetters colLabelText = foldl (\<lambda>c ch. c * 26 + (charCode ch - 64)) 0 colLabelText"

definition parseCell :: "string \<Rightarrow> string + cell" where
  "parseCell input =
     (let trimmed = toUpperCase (trim input) in
      case matchCell trimmed of
        None \<Rightarrow> Inl (''Invalid grid coordinate: '' @ input)
      | Some (colLabelText, rowText) \<Rightarrow>
          (let c = colOfLetters colLabelText;
               r = parseIntDigits rowText
           in if r \<le> 0 then Inl (''Invalid row index in coordinate: '' @ input)
              else Inr \<lparr>col = c - 1, row = r - 1\<rparr>))"


section \<open>GridCompositor: \<open>buildGridOverlaySvg\<close> and \<open>runGridScreenshot\<close>\<close>

text \<open>
  The overlay is an SVG document. Its elements are kept as data instead of markup text:
  a \<open>Rect\<close> carries x, y, width, height, the corner radius (\<open>None\<close> when the element has
  no \<open>rx\<close>/\<open>ry\<close>) and the fill; a \<open>Text\<close> carries x, y, the text anchor, the fill and the
  content (the font size is always 12); a \<open>Line\<close> carries x1, y1, x2, y2 (the stroke is
  always \<open>rgba(255,0,0,0.3)\<close> of width 1).
\<close>

datatype svgNode =
    Rect int int int int "int option" string
  | Text int int string string string
  | Line int int int int

record svgDoc =
  svgWidth :: int
  svgHeight :: int
  svgNodes :: "svgNode list"

record overlayArgs =
  contentWidth :: int
  contentHeight :: int
  cols :: int
  rows :: int
  colOffset :: int
  rowOffset :: int

definition cellBadge :: "overlayArgs \<Rightarrow> int \<Rightarrow> int \<Rightarrow> svgNode list" where
  "cellBadge a r c =
     (let label = colLabel (colOffset a + c) @ showInt (rowOffset a + r + 1);
          boxWidth = min (CELL_SIZE - 4) (max 22 (8 + int (length label) * 8));
          boxHeight = 16;
          boxX = LABEL_MARGIN + c * CELL_SIZE + 2;
          boxY = LABEL_MARGIN + r * CELL_SIZE + 2;
          textX = boxX + 3;
          textY = boxY + 12
      in [Rect boxX boxY boxWidth boxHeight (Some 2) ''rgba(0,0,0,0.7)'',
          Text textX textY ''start'' ''#ffffff'' label])"

definition buildGridOverlaySvg :: "overlayArgs \<Rightarrow> svgDoc" where
  "buildGridOverlaySvg a =
     (let totalW = LABEL_MARGIN + contentWidth a;
          totalH = LABEL_MARGIN + contentHeight a
      in \<lparr>svgWidth = totalW, svgHeight = totalH,
          svgNodes =
            [Rect 0 0 LABEL_MARGIN totalH None ''white'',
             Rect 0 0 totalW LABEL_MARGIN None ''white'']
            @ map (\<lambda>c. Text (LABEL_MARGIN + c * CELL_SIZE + CELL_SIZE div 2) 35
                          ''middle'' ''#cc0000'' (colLabel (colOffset a + c)))
                [0 .. cols a - 1]
            @ map (\<lambda>r. Text 25 (LABEL_MARGIN + r * CELL_SIZE + CELL_SIZE div 2 + 4)
                          ''middle'' ''#cc0000'' (showInt (rowOffset a + r + 1)))
                [0 .. rows a - 1]
            @ map (\<lambda>x. let px = min totalW (LABEL_MARGIN + x * CELL_SIZE)
                        in Line px LABEL_MARGIN px totalH)
                [0 .. cols a]
            @ map (\<lambda>y. let py = min totalH (LABEL_MARGIN + y * CELL_SIZE)
                        in Line LABEL_MARGIN py totalW py)
                [0 .. rows a]
            @ concat (map (\<lambda>r. concat (map (\<lambda>c. cellBadge a r c) [0 .. cols a - 1]))
                [0 .. rows a - 1])\<rparr>)"

text \<open>The coordinate labels written on the per-cell badges, in drawing order.\<close>

fun badgeLabels :: "svgNode list \<Rightarrow> string list" where
  "badgeLabels [] = []"
| "badgeLabels (Text x y anchor fill content # ns) =
     (if fill = ''#ffffff'' then content # badgeLabels ns else badgeLabels ns)"
| "badgeLabels (n # ns) = badgeLabels ns"

text \<open>
  A captured frame is known by its pixel size (\<open>sharp(...).metadata()\<close>); its pixels are
  not modelled. The composed image is a white canvas with its layers: the frame or a
  rectangle extracted from it, and the rendered overlay.
\<close>

record screenshot =
  shotWidth :: int
  shotHeight :: int

datatype layerInput =
    WholeFrame
  | Extracted int int int int
  | Overlay svgDoc

record layer =
  layerInput :: layerInput
  layerTop :: int
  layerLeft :: int

record image =
  imgWidth :: int
  imgHeight :: int
  imgLayers :: "layer list"

text \<open>\<open>Math.ceil(a / b)\<close> for integers \<open>a\<close> and \<open>b > 0\<close>.\<close>

definition ceilDiv :: "int \<Rightarrow> int \<Rightarrow> int" where
  "ceilDiv a b = - ((- a) div b)"

text \<open>A JavaScript string that may be \<open>undefined\<close>; it is truthy when present and not empty.\<close>

definition truthy :: "string option \<Rightarrow> bool" where
  "truthy v = (case v of None \<Rightarrow> False | Some s \<Rightarrow> s \<noteq> [])"

text \<open>
  \<open>sharp.extract\<close> rejects a rectangle that does not lie inside the frame; that failure of
  the image library is an error of the run.
\<close>

definition sharpExtract :: "screenshot \<Rightarrow> int \<Rightarrow> int \<Rightarrow> int \<Rightarrow> int \<Rightarrow> string + layerInput" where
  "sharpExtract shot eLeft eTop eWidth eHeight =
     (if 0 \<le> eLeft \<and> 0 \<le> eTop \<and> 0 < eWidth \<and> 0 < eHeight
         \<and> eLeft + eWidth \<le> shotWidth shot \<and> eTop + eHeight \<le> shotHeight shot
      then Inr (Extracted eLeft eTop eWidth eHeight)
      else Inl ''extract_area: bad extract area'')"

definition runGridScreenshot ::
  "screenshot \<Rightarrow> string option \<Rightarrow> string option \<Rightarrow> string + image" where
  "runGridScreenshot shot start end =
     (let width = shotWidth shot; height = shotHeight shot in
      if width = 0 \<or> height = 0 then Inl ''Failed to determine screenshot dimensions.''
      else
        let cols = ceilDiv width CELL_SIZE;
            rows = ceilDiv height CELL_SIZE;
            totalW = width + LABEL_MARGIN;
            totalH = height + LABEL_MARGIN;
            svg = buildGridOverlaySvg
                    \<lparr>contentWidth = width, contentHeight = height, cols = cols, rows = rows,
                     colOffset = 0, rowOffset = 0\<rparr>
        in if truthy start \<and> truthy end then
             (case parseCell (the start) of
                Inl err \<Rightarrow> Inl err
              | Inr from \<Rightarrow>
                 (case parseCell (the end) of
                    Inl err \<Rightarrow> Inl err
                  | Inr to \<Rightarrow>
                     (let minCol = min (col from) (col to);
                          maxCol = max (col from) (col to);
                          minRow = min (row from) (row to);
                          maxRow = max (row from) (row to);
                          contentLeft = max 0 (minCol * CELL_SIZE);
                          contentTop = max 0 (minRow * CELL_SIZE);
                          contentRight = min width ((maxCol + 1) * CELL_SIZE);
                          contentBottom = min height ((maxRow + 1) * CELL_SIZE);
                          cropWidth = max 1 (contentRight - contentLeft);
                          cropHeight = max 1 (contentBottom - contentTop)
                      in case sharpExtract shot contentLeft contentTop cropWidth cropHeight of
                           Inl err \<Rightarrow> Inl err
                         | Inr croppedContent \<Rightarrow>
                            (let cropTotalW = cropWidth + LABEL_MARGIN;
                                 cropTotalH = cropHeight + LABEL_MARGIN;
                                 cropCols = ceilDiv cropWidth CELL_SIZE;
                                 cropRows = ceilDiv cropHeight CELL_SIZE;
                                 cropSvg = buildGridOverlaySvg
                                    \<lparr>contentWidth = cropWidth, contentHeight = cropHeight,
                                     cols = cropCols, rows = cropRows,
                                     colOffset = minCol, rowOffset = minRow\<rparr>
                             in Inr \<lparr>imgWidth = cropTotalW, imgHeight = cropTotalH,
                                     imgLayers =
                                       [\<lparr>layerInput = croppedContent,
                                         layerTop = LABEL_MARGIN, layerLeft = LABEL_MARGIN\<rparr>,
                                        \<lparr>layerInput = Overlay cropSvg,
                                         layerTop = 0, layerLeft = 0\<rparr>]\<rparr>))))
           else
             Inr \<lparr>imgWidth = totalW, imgHeight = totalH,
                  imgLayers =
                    [\<lparr>layerInput = WholeFrame, layerTop = LABEL_MARGIN, layerLeft = LABEL_MARGIN\<rparr>,
                     \<lparr>layerInput = Overlay svg, layerTop = 0, layerLeft = 0\<rparr>]\<rparr>)"

text \<open>
  The worker's \<open>gridScreenshot\<close> operation (\<open>main\<close>) and the client's
  \<open>gridScreenshotInternal\<close>. The worker's result is a JSON object, kept as its list of
  fields; the value of \<open>imageBase64\<close> is the base64 text of the composed image, kept as
  the image it encodes. The object passes through the worker's output channel unchanged.
\<close>

datatype resultValue =
    VBool bool
  | VImage image

type_synonym bridgeResult = "(string \<times> resultValue) list"

definition mainGridScreenshot ::
  "screenshot \<Rightarrow> string option \<Rightarrow> string option \<Rightarrow> string + bridgeResult" where
  "mainGridScreenshot shot start end =
     (case runGridScreenshot shot start end of
        Inl err \<Rightarrow> Inl err
      | Inr img \<Rightarrow> Inr [(''imageBase64'', VImage img)])"

definition gridScreenshotInternal :: "bridgeResult \<Rightarrow> string + image" where
  "gridScreenshotInternal result =
     (case map_of result ''imageBase64'' of
        Some (VImage img) \<Rightarrow> Inr img
      | _ \<Rightarrow> Inl ''Bridge returned no image for gridScreenshot.'')"

text \<open>What a worker result carries beside the image.\<close>

definition besideImage :: "bridgeResult \<Rightarrow> (string \<times> resultValue) list" where
  "besideImage result = filter (\<lambda>(k, v). k \<noteq> ''imageBase64'') result"

fun overlayOf :: "image \<Rightarrow> svgNode list" where
  "overlayOf img =
     concat (map (\<lambda>l. case layerInput l of Overlay svg \<Rightarrow> svgNodes svg | _ \<Rightarrow> [])
       (imgLayers img))"

text \<open>The rectangle of the frame that the content layer of an image shows.\<close>

fun contentOf :: "image \<Rightarrow> layerInput list" where
  "contentOf img =
     filter (\<lambda>i. case i of Overlay svg \<Rightarrow> False | _ \<Rightarrow> True) (map layerInput (imgLayers img))"

section \<open>CoordinateSpaceMapper and ZoneElementScanner: the script run in the page\<close>

text \<open>
  Page geometry is in JavaScript numbers, modelled as reals. A value read from the page
  that may be \<open>NaN\<close> or \<open>undefined\<close> is a \<open>real option\<close>, \<open>None\<close> standing for \<open>NaN\<close>.
\<close>

datatype coordinateSpace = Viewport | Page

text \<open>\<open>normalizeCoordinateSpace\<close>: only the text \<open>page\<close>, in any case, selects the page space.\<close>

definition normalizeCoordinateSpace :: "string option \<Rightarrow> coordinateSpace" where
  "normalizeCoordinateSpace v =
     (let mode = toLowerCase (case v of None \<Rightarrow> [] | Some s \<Rightarrow> s)
      in if mode = ''page'' then Page else Viewport)"

record rect =
  rLeft :: real
  rRight :: real
  rTop :: real
  rBottom :: real

record domRect =
  dLeft :: real
  dRight :: real
  dTop :: real
  dBottom :: real
  dWidth :: real
  dHeight :: real

text \<open>
  An element as the script sees it. \<open>nodeTag\<close>, \<open>nodeId\<close> and the position among the
  siblings of the same tag are what \<open>buildSelector\<close> reads of the element and of each
  ancestor (\<open>elAncestors\<close>, the parent first); \<open>elRef\<close> is the identity of the DOM node.
\<close>

record domNode =
  nodeTag :: string
  nodeId :: string
  sameTagSiblings :: nat
  sameTagIndex :: nat

record element =
  elRef :: nat
  isHTMLElement :: bool
  elNode :: domNode
  elAncestors :: "domNode list"
  elHref :: "string option"
  elAttrs :: "(string \<times> string) list"
  elInnerText :: "string option"
  elValue :: "string option"
  elPlaceholder :: "string option"
  elType :: "string option"
  elRect :: "domRect option"

record pageSnapshot =
  devicePixelRatio :: "real option"
  innerWidth :: "real option"
  innerHeight :: "real option"
  scrollWidth :: "real option"
  scrollHeight :: "real option"
  scrollX :: real
  scrollY :: real
  interactiveMatches :: "element list"
  pointerMatches :: "element list"

text \<open>
  Functions of the JavaScript host that the script calls and the program does not define:
  \<open>Number\<close> on a string (\<open>None\<close> for \<open>NaN\<close>), \<open>String.prototype.localeCompare\<close> and
  \<open>CSS.escape\<close>. The results proved below hold for every such host.
\<close>

record host =
  hostNumber :: "string \<Rightarrow> real option"
  hostLocaleCompare :: "string \<Rightarrow> string \<Rightarrow> int"
  hostCssEscape :: "string \<Rightarrow> string"

record elementInfo =
  eiSelector :: string
  eiTag :: string
  eiText :: string
  eiHref :: "string option"
  eiPlaceholder :: "string option"
  eiType :: "string option"
  eiRole :: "string option"
  eiLabel :: "string option"

record zoneBounds =
  zMinCol :: int
  zMaxCol :: int
  zMinRow :: int
  zMaxRow :: int

definition tagName :: "element \<Rightarrow> string" where
  "tagName el = nodeTag (elNode el)"

definition getAttribute :: "element \<Rightarrow> string \<Rightarrow> string option" where
  "getAttribute el name = map_of (elAttrs el) name"

definition hasAttribute :: "element \<Rightarrow> string \<Rightarrow> bool" where
  "hasAttribute el name = (getAttribute el name \<noteq> None)"

definition isInteractive :: "host \<Rightarrow> element \<Rightarrow> bool" where
  "isInteractive h el =
     (let tag = tagName el in
      if tag \<in> set [''BUTTON'', ''INPUT'', ''SELECT'', ''TEXTAREA'', ''SUMMARY''] then True
      else if tag = ''A'' \<and> truthy (elHref el) then True
      else
        let role = getAttribute el ''role'' in
        if truthy role \<and> the role \<in> set [''button'', ''link'', ''checkbox'', ''radio'',
             ''menuitem'', ''tab'', ''switch'', ''combobox''] then True
        else if hasAttribute el ''contenteditable'' then True
        else
          let tabIndex = getAttribute el ''tabindex'' in
          if tabIndex \<noteq> None \<and>
             (case hostNumber h (the tabIndex) of None \<Rightarrow> False | Some n \<Rightarrow> n \<ge> 0) then True
          else if hasAttribute el ''onclick'' then True
          else False)"

text \<open>\<open>a || b\<close> on strings that may be undefined.\<close>

definition orElse :: "string option \<Rightarrow> string option \<Rightarrow> string option" where
  "orElse a b = (if truthy a then a else b)"

text \<open>\<open>replace(/\s+/g, ' ')\<close>: every run of white space becomes one blank.\<close>

fun collapseRun :: "bool \<Rightarrow> string \<Rightarrow> string" where
  "collapseRun inRun [] = []"
| "collapseRun inRun (c # cs) =
     (if isSpace c then (if inRun then collapseRun True cs else CHR '' '' # collapseRun True cs)
      else c # collapseRun False cs)"

definition collapseSpaces :: "string \<Rightarrow> string" where
  "collapseSpaces s = collapseRun False s"

definition getText :: "element \<Rightarrow> string" where
  "getText el =
     (let raw = trim (collapseSpaces
            (case orElse (elInnerText el) (orElse (elValue el) (orElse (elPlaceholder el)
                    (orElse (getAttribute el ''aria-label'') (Some [])))) of
               None \<Rightarrow> [] | Some s \<Rightarrow> s))
      in take 60 raw)"

definition intersects :: "rect \<Rightarrow> rect \<Rightarrow> bool" where
  "intersects a b =
     (rLeft a < rRight b \<and> rRight a > rLeft b \<and> rTop a < rBottom b \<and> rBottom a > rTop b)"

text \<open>\<open>Number(x) || 1\<close> for a number \<open>x\<close>: \<open>NaN\<close> and \<open>0\<close> give \<open>1\<close>.\<close>

definition numberOr1 :: "real option \<Rightarrow> real" where
  "numberOr1 v = (case v of None \<Rightarrow> 1 | Some x \<Rightarrow> if x = 0 then 1 else x)"

definition dpr :: "pageSnapshot \<Rightarrow> real" where
  "dpr p = max (1 / 100) (numberOr1 (devicePixelRatio p))"

definition cssSpaceWidth :: "pageSnapshot \<Rightarrow> coordinateSpace \<Rightarrow> real" where
  "cssSpaceWidth p space =
     (if space = Page then max 1 (numberOr1 (scrollWidth p))
      else max 1 (numberOr1 (innerWidth p)))"

definition cssSpaceHeight :: "pageSnapshot \<Rightarrow> coordinateSpace \<Rightarrow> real" where
  "cssSpaceHeight p space =
     (if space = Page then max 1 (numberOr1 (scrollHeight p))
      else max 1 (numberOr1 (innerHeight p)))"

definition imageSpaceWidth :: "pageSnapshot \<Rightarrow> coordinateSpace \<Rightarrow> real" where
  "imageSpaceWidth p space = max 1 (cssSpaceWidth p space * dpr p)"

definition imageSpaceHeight :: "pageSnapshot \<Rightarrow> coordinateSpace \<Rightarrow> real" where
  "imageSpaceHeight p space = max 1 (cssSpaceHeight p space * dpr p)"

definition scaleX :: "pageSnapshot \<Rightarrow> coordinateSpace \<Rightarrow> real" where
  "scaleX p space = imageSpaceWidth p space / cssSpaceWidth p space"

definition scaleY :: "pageSnapshot \<Rightarrow> coordinateSpace \<Rightarrow> real" where
  "scaleY p space = imageSpaceHeight p space / cssSpaceHeight p space"

definition zoneRectImage :: "zoneBounds \<Rightarrow> int \<Rightarrow> rect" where
  "zoneRectImage z cellSize =
     \<lparr>rLeft = real_of_int (zMinCol z * cellSize),
      rRight = real_of_int ((zMaxCol z + 1) * cellSize),
      rTop = real_of_int (zMinRow z * cellSize),
      rBottom = real_of_int ((zMaxRow z + 1) * cellSize)\<rparr>"

definition zoneRect :: "pageSnapshot \<Rightarrow> coordinateSpace \<Rightarrow> zoneBounds \<Rightarrow> int \<Rightarrow> rect" where
  "zoneRect p space z cellSize =
     \<lparr>rLeft = rLeft (zoneRectImage z cellSize) / scaleX p space,
      rRight = rRight (zoneRectImage z cellSize) / scaleX p space,
      rTop = rTop (zoneRectImage z cellSize) / scaleY p space,
      rBottom = rBottom (zoneRectImage z cellSize) / scaleY p space\<rparr>"

definition rectInSpace :: "pageSnapshot \<Rightarrow> coordinateSpace \<Rightarrow> domRect \<Rightarrow> rect" where
  "rectInSpace p space r =
     (if space = Page
      then \<lparr>rLeft = dLeft r + scrollX p, rRight = dRight r + scrollX p,
            rTop = dTop r + scrollY p, rBottom = dBottom r + scrollY p\<rparr>
      else \<lparr>rLeft = dLeft r, rRight = dRight r, rTop = dTop r, rBottom = dBottom r\<rparr>)"

text \<open>\<open>buildSelector\<close> and its helpers, on the element's chain of nodes up to the root.\<close>

definition joinWith :: "string \<Rightarrow> string list \<Rightarrow> string" where
  "joinWith sep xs = (case xs of [] \<Rightarrow> [] | y # ys \<Rightarrow> y @ concat (map (\<lambda>s. sep @ s) ys))"

text \<open>
  \<open>findAnchor\<close>, splitting the chain: the nodes below the anchor (the element first) and
  the anchor, the nearest node that has an id or is the \<open>html\<close> element.
\<close>

fun findAnchor :: "domNode list \<Rightarrow> domNode list \<times> domNode option" where
  "findAnchor [] = ([], None)"
| "findAnchor (n # ns) =
     (if nodeId n \<noteq> [] then ([], Some n)
      else if toLowerCase (nodeTag n) = ''html'' then ([], Some n)
      else (case findAnchor ns of (below, anchor) \<Rightarrow> (n # below, anchor)))"

definition segmentForAnchor :: "host \<Rightarrow> domNode \<Rightarrow> string" where
  "segmentForAnchor h n =
     (let tag = toLowerCase (nodeTag n) in
      if nodeId n \<noteq> [] then tag @ ''#'' @ hostCssEscape h (nodeId n) else tag)"

text \<open>\<open>segmentForNode\<close>; \<open>hasParent\<close> tells whether the node has a parent element.\<close>

definition segmentForNode :: "domNode \<Rightarrow> bool \<Rightarrow> string" where
  "segmentForNode n hasParent =
     (let tag = toLowerCase (nodeTag n) in
      if \<not> hasParent then tag
      else if sameTagSiblings n \<le> 1 then tag
      else let position = sameTagIndex n + 1
           in tag @ '':nth-of-type('' @ showNat position @ '')'')"

text \<open>The segments of the nodes below the anchor, outermost first.\<close>

fun segmentsOf :: "domNode list \<Rightarrow> nat \<Rightarrow> nat \<Rightarrow> string list" where
  "segmentsOf [] k chainLength = []"
| "segmentsOf (n # ns) k chainLength =
     segmentsOf ns (Suc k) chainLength @ [segmentForNode n (Suc k < chainLength)]"

definition buildSelector :: "host \<Rightarrow> element \<Rightarrow> string" where
  "buildSelector h el =
     (let chain = elNode el # elAncestors el in
      case findAnchor chain of (below, anchor) \<Rightarrow>
        (let segments = segmentsOf below 0 (length chain) in
         case anchor of
           None \<Rightarrow> joinWith '' > '' segments
         | Some a \<Rightarrow> joinWith '' > '' (segmentForAnchor h a # segments)))"

definition orUndefined :: "string option \<Rightarrow> string option" where
  "orUndefined v = (if truthy v then v else None)"

definition entryOf :: "host \<Rightarrow> element \<Rightarrow> elementInfo" where
  "entryOf h el =
     \<lparr>eiSelector = buildSelector h el,
      eiTag = tagName el,
      eiText = getText el,
      eiHref = (if tagName el = ''A'' then orUndefined (elHref el) else None),
      eiPlaceholder = orUndefined (elPlaceholder el),
      eiType = orUndefined (elType el),
      eiRole = orUndefined (getAttribute el ''role''),
      eiLabel = orUndefined (getAttribute el ''aria-label'')\<rparr>"

text \<open>
  The candidates: a \<open>Set\<close> filled from the two \<open>querySelectorAll\<close> results, so each node is
  visited once, in the order of its first insertion.
\<close>

definition setAdd :: "element list \<Rightarrow> element \<Rightarrow> element list" where
  "setAdd s el = (if el \<in> set s then s else s @ [el])"

definition candidatesOf :: "pageSnapshot \<Rightarrow> element list" where
  "candidatesOf p = foldl setAdd (foldl setAdd [] (interactiveMatches p)) (pointerMatches p)"

text \<open>Whether the element passes the checks that come before its selector is built.\<close>

definition inZone ::
  "host \<Rightarrow> pageSnapshot \<Rightarrow> coordinateSpace \<Rightarrow> zoneBounds \<Rightarrow> int \<Rightarrow> element \<Rightarrow> bool" where
  "inZone h p space z cellSize el =
     (if \<not> isHTMLElement el then False
      else if \<not> isInteractive h el then False
      else case elRect el of
             None \<Rightarrow> False
           | Some r \<Rightarrow>
               if dWidth r \<le> 0 \<or> dHeight r \<le> 0 then False
               else intersects (zoneRect p space z cellSize) (rectInSpace p space r))"

text \<open>One turn of \<open>candidates.forEach\<close>, on the results so far and the selectors seen.\<close>

definition scanStep ::
  "host \<Rightarrow> pageSnapshot \<Rightarrow> coordinateSpace \<Rightarrow> zoneBounds \<Rightarrow> int \<Rightarrow>
     elementInfo list \<times> string set \<Rightarrow> element \<Rightarrow> elementInfo list \<times> string set" where
  "scanStep h p space z cellSize st el =
     (case st of (results, seenSelectors) \<Rightarrow>
        if \<not> inZone h p space z cellSize el then st
        else
          let selector = buildSelector h el in
          if selector = [] \<or> selector \<in> seenSelectors then st
          else (results @ [entryOf h el], insert selector seenSelectors))"

definition scanCandidates ::
  "host \<Rightarrow> pageSnapshot \<Rightarrow> coordinateSpace \<Rightarrow> zoneBounds \<Rightarrow> int \<Rightarrow> element list \<Rightarrow>
     elementInfo list" where
  "scanCandidates h p space z cellSize cands =
     fst (foldl (scanStep h p space z cellSize) ([], {}) cands)"

text \<open>
  The comparator of \<open>results.sort\<close>, and the sort. \<open>Array.prototype.sort\<close> is stable and
  returns a permutation of the array; it is modelled as a stable insertion sort.
\<close>

definition compareEntries :: "host \<Rightarrow> elementInfo \<Rightarrow> elementInfo \<Rightarrow> int" where
  "compareEntries h a b =
     (let aText = toLowerCase (eiText a); bText = toLowerCase (eiText b) in
      if aText \<noteq> [] \<and> bText \<noteq> [] then hostLocaleCompare h aText bText
      else if aText \<noteq> [] then - 1
      else if bText \<noteq> [] then 1
      else hostLocaleCompare h (eiSelector a) (eiSelector b))"

fun insertSorted :: "('a \<Rightarrow> 'a \<Rightarrow> int) \<Rightarrow> 'a \<Rightarrow> 'a list \<Rightarrow> 'a list" where
  "insertSorted cmp x [] = [x]"
| "insertSorted cmp x (y # ys) =
     (if cmp x y \<le> 0 then x # y # ys else y # insertSorted cmp x ys)"

definition sortWith :: "('a \<Rightarrow> 'a \<Rightarrow> int) \<Rightarrow> 'a list \<Rightarrow> 'a list" where
  "sortWith cmp xs = foldr (insertSorted cmp) xs []"

text \<open>The whole callback of \<open>page.evaluate\<close>.\<close>

definition evaluateScan ::
  "host \<Rightarrow> pageSnapshot \<Rightarrow> coordinateSpace \<Rightarrow> zoneBounds \<Rightarrow> int \<Rightarrow> elementInfo list" where
  "evaluateScan h p space z cellSize =
     sortWith (compareEntries h) (scanCandidates h p space z cellSize (candidatesOf p))"

section \<open>ZoneElementScanner: \<open>runSingleZoneScanWithRetry\<close>\<close>

record zone =
  zoneStart :: string
  zoneEnd :: string

record zoneResult =
  zrZone :: string
  zrElements :: "elementInfo list"

text \<open>What the scan does to the page and the clock, in order.\<close>

datatype scanEvent =
    WaitForLoadState string nat
  | Evaluate
  | Sleep nat

definition isRecoverableScanError :: "string \<Rightarrow> bool" where
  "isRecoverableScanError message =
     (strIncludes message ''Execution context was destroyed'' \<or>
      strIncludes message ''Cannot find context with specified id'' \<or>
      strIncludes message ''Frame was detached'' \<or>
      strIncludes message ''Target page, context or browser has been closed'')"

text \<open>
  \<open>waitForStableDom\<close>: the wait for \<open>domcontentloaded\<close> with a timeout of 3000 ms; whether
  it succeeded (\<open>ok\<close>) changes nothing, the \<open>catch\<close> is empty.
\<close>

definition waitForStableDom :: "bool \<Rightarrow> scanEvent list" where
  "waitForStableDom ok = [WaitForLoadState ''domcontentloaded'' 3000]"

text \<open>
  The world of one scan: what \<open>page.evaluate\<close> does at each attempt (it throws an error
  with a message, or it runs the script on the page as it then is) and whether the waits
  for the document succeed (numbered as issued).
\<close>

record scanWorld =
  evalOutcome :: "nat \<Rightarrow> string + pageSnapshot"
  waitOk :: "nat \<Rightarrow> bool"

definition maxAttempts :: nat where
  "maxAttempts = 3"

text \<open>
  The \<open>for\<close> loop from the given attempt on, with the last error and the events so far.
\<close>

function scanLoop ::
  "host \<Rightarrow> scanWorld \<Rightarrow> coordinateSpace \<Rightarrow> zoneBounds \<Rightarrow> string \<Rightarrow> nat \<Rightarrow> string option \<Rightarrow>
     scanEvent list \<Rightarrow> (string + zoneResult) \<times> scanEvent list" where
  "scanLoop h w space z zoneName attempt lastError events =
     (if attempt \<le> maxAttempts then
        (let events1 = events @ waitForStableDom (waitOk w (2 * attempt - 2)) @ [Evaluate] in
         case evalOutcome w attempt of
           Inr page \<Rightarrow>
             (Inr \<lparr>zrZone = zoneName, zrElements = evaluateScan h page space z CELL_SIZE\<rparr>,
              events1)
         | Inl error \<Rightarrow>
             if \<not> isRecoverableScanError error \<or> attempt \<ge> maxAttempts then (Inl error, events1)
             else scanLoop h w space z zoneName (attempt + 1) (Some error)
                    (events1 @ waitForStableDom (waitOk w (2 * attempt - 1))
                       @ [Sleep (200 * attempt)]))
      else
        (Inl (case lastError of Some e \<Rightarrow> e
              | None \<Rightarrow> ''Failed to scan zone '' @ zoneName @ ''.''), events))"
  by pat_completeness auto
termination
  by (relation "measure (\<lambda>(h, w, space, z, zoneName, attempt, lastError, events).
        Suc maxAttempts - attempt)") auto

declare scanLoop.simps [simp del]

definition runSingleZoneScanWithRetry ::
  "host \<Rightarrow> scanWorld \<Rightarrow> zone \<Rightarrow> coordinateSpace \<Rightarrow> (string + zoneResult) \<times> scanEvent list" where
  "runSingleZoneScanWithRetry h w zn space =
     (case parseCell (zoneStart zn) of
        Inl err \<Rightarrow> (Inl err, [])
      | Inr start \<Rightarrow>
         (case parseCell (zoneEnd zn) of
            Inl err \<Rightarrow> (Inl err, [])
          | Inr end \<Rightarrow>
             (let z = \<lparr>zMinCol = min (col start) (col end), zMaxCol = max (col start) (col end),
                       zMinRow = min (row start) (row end), zMaxRow = max (row start) (row end)\<rparr>;
                  zoneName = toUpperCase (zoneStart zn) @ '':'' @ toUpperCase (zoneEnd zn)
              in scanLoop h w space z zoneName 1 None [])))"

text \<open>
  The overlap test of the scan, for an element with a bounding rectangle: its rectangle in
  the coordinate space against the mapped zone rectangle.
\<close>

definition overlapsZone ::
  "pageSnapshot \<Rightarrow> coordinateSpace \<Rightarrow> zoneBounds \<Rightarrow> int \<Rightarrow> element \<Rightarrow> bool" where
  "overlapsZone p space z cellSize el =
     (case elRect el of
        None \<Rightarrow> False
      | Some r \<Rightarrow> intersects (zoneRect p space z cellSize) (rectInSpace p space r))"


text \<open>The wait that \<open>waitForStableDom\<close> issues.\<close>

definition domWait :: scanEvent where
  "domWait = WaitForLoadState ''domcontentloaded'' 3000"

text \<open>
  In a list of events, \<open>page.evaluate\<close> never comes first and is always directly
  preceded by the wait for the document.
\<close>

fun afterEvent :: "scanEvent \<Rightarrow> scanEvent list \<Rightarrow> bool" where
  "afterEvent prev [] = True"
| "afterEvent prev (e # es) = ((e = Evaluate \<longrightarrow> prev = domWait) \<and> afterEvent e es)"

fun waitsBeforeEvaluate :: "scanEvent list \<Rightarrow> bool" where
  "waitsBeforeEvaluate [] = True"
| "waitsBeforeEvaluate (e # es) = (e \<noteq> Evaluate \<and> afterEvent e es)"

definition attemptsMade :: "scanEvent list \<Rightarrow> nat" where
  "attemptsMade events = length (filter (\<lambda>e. e = Evaluate) events)"

section \<open>ElementMatcher: \<open>findBestInteractiveElement\<close>\<close>

record uiElement =
  ueId :: string
  ueGridRef :: string
  ueElementType :: string
  ueRole :: "string option"
  ueText :: string
  ueActionability :: string
  ueLikelyActions :: "string list"
  ueImportance :: string
  ueWhyItMatters :: string
  ueConfidence :: real

text \<open>
  \<open>split(/[^a-z0-9]+/)\<close>: the pieces between the runs of separator characters, an empty
  piece before a leading run and after a trailing one included.
\<close>

definition isTokenChar :: "char \<Rightarrow> bool" where
  "isTokenChar c = (isLower c \<or> isDigit c)"

fun splitPieces :: "bool \<Rightarrow> string \<Rightarrow> string \<Rightarrow> string list" where
  "splitPieces inSeparator piece [] = [rev piece]"
| "splitPieces inSeparator piece (c # cs) =
     (if \<not> isTokenChar c
      then (if inSeparator then splitPieces True piece cs
            else rev piece # splitPieces True [] cs)
      else splitPieces False (c # piece) cs)"

definition tokensOf :: "string \<Rightarrow> string list" where
  "tokensOf phrase = filter (\<lambda>token. token \<noteq> []) (map trim (splitPieces False [] phrase))"

definition coreOf :: "uiElement \<Rightarrow> string" where
  "coreOf element =
     toLowerCase (joinWith '' ''
       [ueId element, ueText element, ueElementType element,
        (case ueRole element of None \<Rightarrow> [] | Some r \<Rightarrow> r)])"

definition auxOf :: "uiElement \<Rightarrow> string" where
  "auxOf element =
     toLowerCase (joinWith '' ''
       ([ueGridRef element, ueActionability element] @ ueLikelyActions element))"

text \<open>
  One turn of the loop over the tokens, on the score and the two counters
  \<open>tokenMatchesCore\<close> and \<open>tokenMatchesAux\<close>.
\<close>

definition tokenStep :: "uiElement \<Rightarrow> int \<times> nat \<times> nat \<Rightarrow> string \<Rightarrow> int \<times> nat \<times> nat" where
  "tokenStep element st token =
     (case st of (score, tokenMatchesCore, tokenMatchesAux) \<Rightarrow>
        let core = coreOf element; aux = auxOf element;
            tokenMatchesCore' = (if strIncludes core token then tokenMatchesCore + 1
                                 else tokenMatchesCore);
            tokenMatchesAux' = (if \<not> strIncludes core token \<and> strIncludes aux token
                                then tokenMatchesAux + 1 else tokenMatchesAux);
            score1 = (if strIncludes (toLowerCase (ueText element)) token then score + 4
                      else score);
            score2 = (if strIncludes (toLowerCase (ueId element)) token then score1 + 4
                      else score1)
        in (score2, tokenMatchesCore', tokenMatchesAux'))"

text \<open>
  The score of one element, \<open>None\<close> when the loop skips it (\<open>continue\<close>): neither the
  phrase is contained nor half of the tokens are matched.
\<close>

definition elementScore :: "string \<Rightarrow> string list \<Rightarrow> uiElement \<Rightarrow> int option" where
  "elementScore phrase tokens element =
     (let core = coreOf element; aux = auxOf element;
          phraseInCore = strIncludes core phrase;
          phraseInAux = strIncludes aux phrase;
          score0 = (if phraseInCore then 80 else 0);
          score1 = (if phraseInAux then score0 + 20 else score0);
          score2 = (if toLowerCase (ueText element) = phrase then score1 + 20 else score1);
          score3 = (if toLowerCase (ueId element) = phrase then score2 + 20 else score2)
      in case foldl (tokenStep element) (score3, 0, 0) tokens of
           (score4, tokenMatchesCore, tokenMatchesAux) \<Rightarrow>
             let score5 = score4 + int tokenMatchesCore * 16;
                 score6 = score5 + int tokenMatchesAux * 4;
                 coverage = (if tokens \<noteq> []
                             then real (tokenMatchesCore + tokenMatchesAux) / real (length tokens)
                             else 1)
             in if \<not> phraseInCore \<and> \<not> phraseInAux \<and> coverage < 1 / 2 then None
                else
                  let score7 = (if toLowerCase (ueImportance element) = ''critical''
                                then score6 + 2 else score6);
                      score8 = (if toLowerCase (ueImportance element) = ''high''
                                then score7 + 1 else score7)
                  in Some score8)"

text \<open>One turn of the loop over the elements, on \<open>best\<close> and \<open>bestScore\<close>.\<close>

definition bestStep ::
  "string \<Rightarrow> string list \<Rightarrow> uiElement option \<times> int \<Rightarrow> uiElement \<Rightarrow> uiElement option \<times> int" where
  "bestStep phrase tokens st element =
     (case st of (best, bestScore) \<Rightarrow>
        case elementScore phrase tokens element of
          None \<Rightarrow> st
        | Some score \<Rightarrow> if score > bestScore then (Some element, score) else st)"

definition findBestInteractiveElement :: "uiElement list \<Rightarrow> string \<Rightarrow> uiElement option" where
  "findBestInteractiveElement elements query =
     (let phrase = toLowerCase query;
          tokens = tokensOf phrase
      in case foldl (bestStep phrase tokens) (None, 0) elements of
           (best, bestScore) \<Rightarrow> if bestScore > 0 then best else None)"




text \<open>How many of the tokens a text contains, and how many only the secondary text does.\<close>

definition countIn :: "string \<Rightarrow> string list \<Rightarrow> nat" where
  "countIn s tokens = length (filter (\<lambda>token. strIncludes s token) tokens)"

definition countAuxOnly :: "string \<Rightarrow> string \<Rightarrow> string list \<Rightarrow> nat" where
  "countAuxOnly core aux tokens =
     length (filter (\<lambda>token. \<not> strIncludes core token \<and> strIncludes aux token) tokens)"


text \<open>
  The score of an element before the importance is added, and the condition under which
  the loop skips the element, written with the counts.
\<close>

definition baseScore :: "string \<Rightarrow> string list \<Rightarrow> uiElement \<Rightarrow> int" where
  "baseScore p ts e =
     (if strIncludes (coreOf e) p then 80 else 0)
     + (if strIncludes (auxOf e) p then 20 else 0)
     + (if toLowerCase (ueText e) = p then 20 else 0)
     + (if toLowerCase (ueId e) = p then 20 else 0)
     + 4 * int (countIn (toLowerCase (ueText e)) ts)
     + 4 * int (countIn (toLowerCase (ueId e)) ts)
     + 16 * int (countIn (coreOf e) ts)
     + 4 * int (countAuxOnly (coreOf e) (auxOf e) ts)"



section \<open>Example data\<close>

text \<open>A host, a page with three buttons and a world of failing scans, used as instances.\<close>

definition exampleHost :: host where
  "exampleHost = \<lparr>hostNumber = (\<lambda>s. None), hostLocaleCompare = (\<lambda>a b. 0),
     hostCssEscape = (\<lambda>s. s)\<rparr>"

definition exampleButton :: "nat \<Rightarrow> string \<Rightarrow> real \<Rightarrow> real \<Rightarrow> element" where
  "exampleButton ref ident x y =
     \<lparr>elRef = ref, isHTMLElement = True,
      elNode = \<lparr>nodeTag = ''BUTTON'', nodeId = ident, sameTagSiblings = 3, sameTagIndex = 0\<rparr>,
      elAncestors = [\<lparr>nodeTag = ''BODY'', nodeId = [], sameTagSiblings = 1, sameTagIndex = 0\<rparr>,
                     \<lparr>nodeTag = ''HTML'', nodeId = [], sameTagSiblings = 1, sameTagIndex = 0\<rparr>],
      elHref = None, elAttrs = [], elInnerText = Some ''Go'', elValue = Some [],
      elPlaceholder = None, elType = Some ''submit'',
      elRect = Some \<lparr>dLeft = x, dRight = x + 60, dTop = y, dBottom = y + 30,
                      dWidth = 60, dHeight = 30\<rparr>\<rparr>"

definition examplePage :: pageSnapshot where
  "examplePage =
     \<lparr>devicePixelRatio = Some 1, innerWidth = Some 1000, innerHeight = Some 800,
      scrollWidth = Some 1000, scrollHeight = Some 2400, scrollX = 0, scrollY = 0,
      interactiveMatches = [exampleButton 1 ''go'' 120 120, exampleButton 2 ''go'' 130 160,
                            exampleButton 3 ''far'' 500 500],
      pointerMatches = [exampleButton 1 ''go'' 120 120]\<rparr>"

definition exampleZoneB2 :: zoneBounds where
  "exampleZoneB2 = \<lparr>zMinCol = 1, zMaxCol = 1, zMinRow = 1, zMaxRow = 1\<rparr>"

definition exampleEntry :: elementInfo where
  "exampleEntry =
     \<lparr>eiSelector = ''button#go'', eiTag = ''BUTTON'', eiText = ''Go'', eiHref = None,
      eiPlaceholder = None, eiType = Some ''submit'', eiRole = None, eiLabel = None\<rparr>"

definition failingWorld :: "string \<Rightarrow> string \<Rightarrow> string \<Rightarrow> scanWorld" where
  "failingWorld e1 e2 e3 =
     \<lparr>evalOutcome = (\<lambda>n. if n = 1 then Inl e1 else if n = 2 then Inl e2 else Inl e3),
      waitOk = (\<lambda>n. False)\<rparr>"

definition recoveringWorld :: "string \<Rightarrow> scanWorld" where
  "recoveringWorld e1 =
     \<lparr>evalOutcome = (\<lambda>n. if n = 1 then Inl e1 else Inr examplePage),
      waitOk = (\<lambda>n. True)\<rparr>"

definition steadyWorld :: scanWorld where
  "steadyWorld = \<lparr>evalOutcome = (\<lambda>n. Inr examplePage), waitOk = (\<lambda>n. True)\<rparr>"

definition exampleZone :: zone where
  "exampleZone = \<lparr>zoneStart = ''b2'', zoneEnd = '' d4 ''\<rparr>"

definition contextDestroyed :: string where
  "contextDestroyed = ''page.evaluate: Execution context was destroyed, most likely because of a navigation''"

definition frameDetached :: string where
  "frameDetached = ''page.evaluate: Frame was detached''"

definition typeError :: string where
  "typeError = ''TypeError: Cannot read properties of null''"

definition exampleElement :: "string \<Rightarrow> string \<Rightarrow> string \<Rightarrow> uiElement" where
  "exampleElement ident txt importance =
     \<lparr>ueId = ident, ueGridRef = ''B2'', ueElementType = ''button'', ueRole = None,
      ueText = txt, ueActionability = ''clickable'', ueLikelyActions = [''click''],
      ueImportance = importance, ueWhyItMatters = [], ueConfidence = 1\<rparr>"

section \<open>Properties of the coordinate grid\<close>


















section \<open>Properties of the grid screenshot\<close>

lemma badgeLabels_append: "badgeLabels (xs @ ys) = badgeLabels xs @ badgeLabels ys"
  by (induction xs rule: badgeLabels.induct) auto

lemma badgeLabels_headers:
  "badgeLabels (map (\<lambda>c. Text (f c) (g c) ''middle'' ''#cc0000'' (h c)) xs) = []"
  by (induction xs) auto

lemma badgeLabels_lines: "badgeLabels (map (\<lambda>x. Line (f x) (g x) (h x) (k x)) xs) = []"
  by (induction xs) auto

lemma badgeLabels_cellBadge:
  "badgeLabels (cellBadge a r c) = [colLabel (colOffset a + c) @ showInt (rowOffset a + r + 1)]"
  by (simp add: cellBadge_def Let_def)

lemma badgeLabels_row:
  "badgeLabels (concat (map (\<lambda>c. cellBadge a r c) cs)) =
     map (\<lambda>c. colLabel (colOffset a + c) @ showInt (rowOffset a + r + 1)) cs"
  by (induction cs) (simp_all add: badgeLabels_append badgeLabels_cellBadge)

lemma badgeLabels_rows:
  "badgeLabels (concat (map (\<lambda>r. concat (map (\<lambda>c. cellBadge a r c) cs)) rs)) =
     concat (map (\<lambda>r. map (\<lambda>c. colLabel (colOffset a + c) @ showInt (rowOffset a + r + 1)) cs) rs)"
  by (induction rs) (simp_all add: badgeLabels_append badgeLabels_row)

text \<open>The badges of an overlay, row by row: the label of the cell shifted by the offset.\<close>

lemma badgeLabels_overlay:
  "badgeLabels (svgNodes (buildGridOverlaySvg a)) =
     concat (map (\<lambda>r. map (\<lambda>c. colLabel (colOffset a + c) @ showInt (rowOffset a + r + 1))
        [0 .. cols a - 1]) [0 .. rows a - 1])"
  by (simp add: buildGridOverlaySvg_def Let_def badgeLabels_append badgeLabels_headers
      badgeLabels_lines badgeLabels_rows)

lemma ceilDiv_pos: "1 \<le> w \<Longrightarrow> 1 \<le> ceilDiv w CELL_SIZE"
  unfolding ceilDiv_def CELL_SIZE_def by linarith

lemma upto_first: "1 \<le> n \<Longrightarrow> [0 .. n - 1] = 0 # [1 .. n - 1]"
  by (simp add: upto_rec1)

lemma hd_badgeLabels_overlay:
  assumes "1 \<le> cols a" "1 \<le> rows a"
  shows "hd (badgeLabels (svgNodes (buildGridOverlaySvg a))) =
     colLabel (colOffset a) @ showInt (rowOffset a + 1)"
  by (simp add: badgeLabels_overlay upto_first [OF assms(1)] upto_first [OF assms(2)])

lemma sharpExtract_Inr: "sharpExtract shot l t w h = Inr x \<Longrightarrow> x = Extracted l t w h"
  by (simp add: sharpExtract_def split: if_splits)

lemma runGridScreenshot_parse:
  assumes "truthy start" "truthy end" "runGridScreenshot shot start end = Inr img"
  obtains a b where "parseCell (the start) = Inr a" "parseCell (the end) = Inr b"
proof -
  from assms obtain a where a: "parseCell (the start) = Inr a"
    by (cases "parseCell (the start)") (auto simp: runGridScreenshot_def Let_def split: if_splits)
  from assms a obtain b where b: "parseCell (the end) = Inr b"
    by (cases "parseCell (the end)") (auto simp: runGridScreenshot_def Let_def split: if_splits)
  from a b that show ?thesis by blast
qed

lemma runGridScreenshot_overlay:
  assumes "truthy start" "truthy end" "runGridScreenshot shot start end = Inr img"
    "parseCell (the start) = Inr a" "parseCell (the end) = Inr b"
  shows "overlayOf img = svgNodes (buildGridOverlaySvg
     \<lparr>contentWidth = max 1 (min (shotWidth shot) ((max (col a) (col b) + 1) * CELL_SIZE)
         - max 0 (min (col a) (col b) * CELL_SIZE)),
      contentHeight = max 1 (min (shotHeight shot) ((max (row a) (row b) + 1) * CELL_SIZE)
         - max 0 (min (row a) (row b) * CELL_SIZE)),
      cols = ceilDiv (max 1 (min (shotWidth shot) ((max (col a) (col b) + 1) * CELL_SIZE)
         - max 0 (min (col a) (col b) * CELL_SIZE))) CELL_SIZE,
      rows = ceilDiv (max 1 (min (shotHeight shot) ((max (row a) (row b) + 1) * CELL_SIZE)
         - max 0 (min (row a) (row b) * CELL_SIZE))) CELL_SIZE,
      colOffset = min (col a) (col b), rowOffset = min (row a) (row b)\<rparr>)"
proof (cases "shotWidth shot = 0 \<or> shotHeight shot = 0")
  case True
  with assms(3) show ?thesis by (simp add: runGridScreenshot_def)
next
  case False
  with assms show ?thesis
    by (clarsimp simp add: runGridScreenshot_def Let_def split: sum.splits
        dest!: sharpExtract_Inr)
qed

text \<open>
  On a cropped image the first badge bears the label of the crop's top-left cell in the
  coordinates of the whole frame.
\<close>

lemma runGridScreenshot_crop:
  assumes "truthy start" "truthy end" "runGridScreenshot shot start end = Inr img"
  shows "\<exists>a b. parseCell (the start) = Inr a \<and> parseCell (the end) = Inr b \<and>
     hd (badgeLabels (overlayOf img)) =
       colLabel (min (col a) (col b)) @ showInt (min (row a) (row b) + 1)"
proof -
  from assms obtain a b where ab: "parseCell (the start) = Inr a" "parseCell (the end) = Inr b"
    by (rule runGridScreenshot_parse)
  define w where "w = max 1 (min (shotWidth shot) ((max (col a) (col b) + 1) * CELL_SIZE)
      - max 0 (min (col a) (col b) * CELL_SIZE))"
  define h where "h = max 1 (min (shotHeight shot) ((max (row a) (row b) + 1) * CELL_SIZE)
      - max 0 (min (row a) (row b) * CELL_SIZE))"
  define args where "args = \<lparr>contentWidth = w, contentHeight = h,
      cols = ceilDiv w CELL_SIZE, rows = ceilDiv h CELL_SIZE,
      colOffset = min (col a) (col b), rowOffset = min (row a) (row b)\<rparr>"
  have ov: "overlayOf img = svgNodes (buildGridOverlaySvg args)"
    unfolding args_def w_def h_def by (rule runGridScreenshot_overlay [OF assms ab])
  have "1 \<le> w" "1 \<le> h" by (simp_all add: w_def h_def)
  then have "1 \<le> cols args" "1 \<le> rows args" by (simp_all add: args_def ceilDiv_pos)
  then have "hd (badgeLabels (svgNodes (buildGridOverlaySvg args))) =
      colLabel (colOffset args) @ showInt (rowOffset args + 1)"
    by (rule hd_badgeLabels_overlay)
  with ov ab show ?thesis by (simp add: args_def)
qed

lemma parseCell_B2: "parseCell ''B2'' = Inr \<lparr>col = 1, row = 1\<rparr>"
  by code_simp

lemma parseCell_D4: "parseCell ''D4'' = Inr \<lparr>col = 3, row = 3\<rparr>"
  by code_simp

lemma runGridScreenshot_B2_D4:
  "runGridScreenshot \<lparr>shotWidth = 1000, shotHeight = 800\<rparr> (Some ''B2'') (Some ''D4'') =
     Inr \<lparr>imgWidth = 350, imgHeight = 350,
          imgLayers =
            [\<lparr>layerInput = Extracted 100 100 300 300, layerTop = 50, layerLeft = 50\<rparr>,
             \<lparr>layerInput = Overlay (buildGridOverlaySvg
                 \<lparr>contentWidth = 300, contentHeight = 300, cols = 3, rows = 3,
                  colOffset = 1, rowOffset = 1\<rparr>), layerTop = 0, layerLeft = 0\<rparr>]\<rparr>"
  by (simp add: runGridScreenshot_def Let_def truthy_def parseCell_B2 parseCell_D4
      sharpExtract_def ceilDiv_def CELL_SIZE_def LABEL_MARGIN_def)

lemma upto_0_2: "[0 .. 2] = [0, 1, 2 :: int]"
  by (simp add: upto_rec1)

lemma colLabel_B: "colLabel 1 = ''B''"
  by code_simp

lemma colLabel_C: "colLabel 2 = ''C''"
  by code_simp

lemma colLabel_D: "colLabel 3 = ''D''"
  by code_simp

lemma showInt_2: "showInt 2 = ''2''"
  by code_simp

lemma showInt_3: "showInt 3 = ''3''"
  by code_simp

lemma showInt_4: "showInt 4 = ''4''"
  by code_simp

lemma badgeLabels_B2_D4:
  "badgeLabels (svgNodes (buildGridOverlaySvg
      \<lparr>contentWidth = 300, contentHeight = 300, cols = 3, rows = 3,
       colOffset = 1, rowOffset = 1\<rparr>)) =
     [''B2'', ''C2'', ''D2'', ''B3'', ''C3'', ''D3'', ''B4'', ''C4'', ''D4'']"
  by (simp add: badgeLabels_overlay upto_0_2 colLabel_B colLabel_C colLabel_D
      showInt_2 showInt_3 showInt_4)

text \<open>
  Claim C2. For the range \<open>B2\<close> to \<open>D4\<close> on a frame of 1000 by 800 pixels (the frame is
  captured at device scale, so at ratio 1 these are also its CSS pixels) the composed image
  is 350 by 350: the 50 pixel margin and a content layer, placed at \<open>(50, 50)\<close>, that is the
  300 by 300 rectangle of the frame starting at \<open>(100, 100)\<close>, the pixels of columns B to D
  and rows 2 to 4. The badges drawn on it are \<open>B2\<close> to \<open>D4\<close>, row by row; the first one is
  \<open>B2\<close>, the label of the offset cell, and not \<open>A1\<close>.
\<close>

theorem C2_crop_B2_D4:
  "runGridScreenshot \<lparr>shotWidth = 1000, shotHeight = 800\<rparr> (Some ''B2'') (Some ''D4'') =
     Inr \<lparr>imgWidth = 350, imgHeight = 350,
          imgLayers =
            [\<lparr>layerInput = Extracted 100 100 300 300, layerTop = 50, layerLeft = 50\<rparr>,
             \<lparr>layerInput = Overlay (buildGridOverlaySvg
                 \<lparr>contentWidth = 300, contentHeight = 300, cols = 3, rows = 3,
                  colOffset = 1, rowOffset = 1\<rparr>), layerTop = 0, layerLeft = 0\<rparr>]\<rparr>
   \<and> badgeLabels (svgNodes (buildGridOverlaySvg
         \<lparr>contentWidth = 300, contentHeight = 300, cols = 3, rows = 3,
          colOffset = 1, rowOffset = 1\<rparr>)) =
       [''B2'', ''C2'', ''D2'', ''B3'', ''C3'', ''D3'', ''B4'', ''C4'', ''D4'']
   \<and> hd (badgeLabels (svgNodes (buildGridOverlaySvg
         \<lparr>contentWidth = 300, contentHeight = 300, cols = 3, rows = 3,
          colOffset = 1, rowOffset = 1\<rparr>))) = colLabel (1 + 0) @ showInt (1 + 0 + 1)
   \<and> 350 - LABEL_MARGIN = 300
   \<and> 1 * CELL_SIZE = 100 \<and> (3 + 1) * CELL_SIZE - 1 * CELL_SIZE = 300"
  by (simp add: runGridScreenshot_B2_D4 badgeLabels_B2_D4 colLabel_B showInt_2
      LABEL_MARGIN_def CELL_SIZE_def)

text \<open>
  Claim C3, as the program has it. The worker's result for a cropped grid screenshot is an
  object with the single field \<open>imageBase64\<close>, which the client decodes to the image it
  returns; no offset is delivered beside the image. The offset is visible only on the
  image: the first badge is \<open>colLabel\<close> of the smaller column followed by the smaller row
  plus one.
\<close>

theorem C3_result_is_image_only:
  assumes "truthy start" "truthy end" "mainGridScreenshot shot start end = Inr result"
  shows "\<exists>img a b. result = [(''imageBase64'', VImage img)] \<and> besideImage result = []
     \<and> gridScreenshotInternal result = Inr img
     \<and> parseCell (the start) = Inr a \<and> parseCell (the end) = Inr b
     \<and> hd (badgeLabels (overlayOf img)) =
         colLabel (min (col a) (col b)) @ showInt (min (row a) (row b) + 1)"
proof -
  from assms(3) obtain img where i: "runGridScreenshot shot start end = Inr img"
    "result = [(''imageBase64'', VImage img)]"
    by (auto simp: mainGridScreenshot_def split: sum.splits)
  from runGridScreenshot_crop [OF assms(1,2) i(1)] i(2) show ?thesis
    by (auto simp: besideImage_def gridScreenshotInternal_def)
qed

theorem C3_result_is_image_only_witness:
  "truthy (Some ''B2'') \<and> truthy (Some ''D4'')
   \<and> (\<exists>img a b.
        mainGridScreenshot \<lparr>shotWidth = 1000, shotHeight = 800\<rparr> (Some ''B2'') (Some ''D4'')
          = Inr [(''imageBase64'', VImage img)]
        \<and> gridScreenshotInternal [(''imageBase64'', VImage img)] = Inr img
        \<and> parseCell ''B2'' = Inr a \<and> parseCell ''D4'' = Inr b
        \<and> hd (badgeLabels (overlayOf img)) =
            colLabel (min (col a) (col b)) @ showInt (min (row a) (row b) + 1))"
proof -
  have t: "truthy (Some ''B2'')" "truthy (Some ''D4'')" by (simp_all add: truthy_def)
  obtain result where
    r: "mainGridScreenshot \<lparr>shotWidth = 1000, shotHeight = 800\<rparr> (Some ''B2'') (Some ''D4'')
          = Inr result"
    by (simp add: mainGridScreenshot_def runGridScreenshot_B2_D4)
  from C3_result_is_image_only [OF t r] r t show ?thesis by auto
qed

theorem C3_offset_not_delivered_counterexample:
  "(case mainGridScreenshot \<lparr>shotWidth = 1000, shotHeight = 800\<rparr> (Some ''B2'') (Some ''D4'') of
      Inl err \<Rightarrow> False
    | Inr result \<Rightarrow> map fst result = [''imageBase64''] \<and> besideImage result = [])"
  by (simp add: mainGridScreenshot_def runGridScreenshot_B2_D4 besideImage_def)

section \<open>Properties of the coordinate mapping\<close>

lemma numberOr1_nonzero: "numberOr1 v \<noteq> 0"
  by (simp add: numberOr1_def split: option.splits)












section \<open>Properties of the zone scan\<close>

lemma set_insertSorted: "set (insertSorted cmp x ys) = insert x (set ys)"
  by (induction ys) auto

lemma set_sortWith: "set (sortWith cmp xs) = set xs"
  by (induction xs) (simp_all add: sortWith_def set_insertSorted)

lemma distinct_map_insertSorted:
  "distinct (map f (insertSorted cmp x ys)) \<longleftrightarrow> f x \<notin> f ` set ys \<and> distinct (map f ys)"
  by (induction ys) (auto simp: set_insertSorted)

lemma distinct_map_sortWith: "distinct (map f (sortWith cmp xs)) \<longleftrightarrow> distinct (map f xs)"
proof (induction xs)
  case Nil
  show ?case by (simp add: sortWith_def)
next
  case (Cons x xs)
  have "sortWith cmp (x # xs) = insertSorted cmp x (sortWith cmp xs)" by (simp add: sortWith_def)
  with Cons show ?case by (simp add: distinct_map_insertSorted set_sortWith)
qed

text \<open>The loop invariant: the selectors seen are those of the results, each once.\<close>

lemma scanStep_invariant:
  assumes "scanStep h p space z c (rs, seen) el = (rs', seen')"
    "seen = set (map eiSelector rs)" "distinct (map eiSelector rs)"
  shows "seen' = set (map eiSelector rs') \<and> distinct (map eiSelector rs')"
proof (cases "inZone h p space z c el \<and> buildSelector h el \<noteq> [] \<and> buildSelector h el \<notin> seen")
  case True
  with assms(1) have "rs' = rs @ [entryOf h el]" "seen' = insert (buildSelector h el) seen"
    by (auto simp: scanStep_def Let_def)
  moreover have "eiSelector (entryOf h el) = buildSelector h el" by (simp add: entryOf_def)
  ultimately show ?thesis using assms(2,3) True by auto
next
  case False
  with assms(1) have "rs' = rs" "seen' = seen"
    by (auto simp: scanStep_def Let_def split: if_splits)
  with assms(2,3) show ?thesis by simp
qed

lemma foldl_scanStep_invariant:
  assumes "foldl (scanStep h p space z c) (rs, seen) cands = (rs', seen')"
    "seen = set (map eiSelector rs)" "distinct (map eiSelector rs)"
  shows "seen' = set (map eiSelector rs') \<and> distinct (map eiSelector rs')"
  using assms
proof (induction cands arbitrary: rs seen)
  case Nil
  then show ?case by auto
next
  case (Cons el cands)
  obtain rs1 seen1 where s: "scanStep h p space z c (rs, seen) el = (rs1, seen1)"
    by (cases "scanStep h p space z c (rs, seen) el")
  from scanStep_invariant [OF s Cons.prems(2,3)]
  have "seen1 = set (map eiSelector rs1)" "distinct (map eiSelector rs1)" by simp_all
  moreover from Cons.prems(1) s
  have "foldl (scanStep h p space z c) (rs1, seen1) cands = (rs', seen')" by simp
  ultimately show ?case using Cons.IH by blast
qed

lemma distinct_scanCandidates: "distinct (map eiSelector (scanCandidates h p space z c cands))"
proof -
  obtain rs seen where f: "foldl (scanStep h p space z c) ([], {}) cands = (rs, seen)"
    by (cases "foldl (scanStep h p space z c) ([], {}) cands")
  from foldl_scanStep_invariant [OF f] show ?thesis by (simp add: scanCandidates_def f)
qed

lemma inZone_overlapsZone: "inZone h p space z c el \<Longrightarrow> overlapsZone p space z c el"
  by (auto simp: inZone_def overlapsZone_def split: if_splits option.splits)

text \<open>Every result is the entry of a candidate that passed the checks.\<close>

lemma foldl_scanStep_provenance:
  assumes "foldl (scanStep h p space z c) (rs, seen) cands = (rs', seen')"
    "\<forall>r \<in> set rs. \<exists>el \<in> S. inZone h p space z c el \<and> r = entryOf h el" "set cands \<subseteq> S"
  shows "\<forall>r \<in> set rs'. \<exists>el \<in> S. inZone h p space z c el \<and> r = entryOf h el"
  using assms
proof (induction cands arbitrary: rs seen)
  case Nil
  then show ?case by simp
next
  case (Cons el cands)
  obtain rs1 seen1 where s: "scanStep h p space z c (rs, seen) el = (rs1, seen1)"
    by (cases "scanStep h p space z c (rs, seen) el")
  have "\<forall>r \<in> set rs1. \<exists>el \<in> S. inZone h p space z c el \<and> r = entryOf h el"
    using s Cons.prems(2,3) by (auto simp: scanStep_def Let_def split: if_splits)
  moreover from Cons.prems(1) s
  have "foldl (scanStep h p space z c) (rs1, seen1) cands = (rs', seen')" by simp
  moreover have "set cands \<subseteq> S" using Cons.prems(3) by simp
  ultimately show ?case using Cons.IH by blast
qed

lemma scanCandidates_provenance:
  assumes "r \<in> set (scanCandidates h p space z c cands)"
  shows "\<exists>el \<in> set cands. inZone h p space z c el \<and> r = entryOf h el"
proof -
  obtain rs seen where f: "foldl (scanStep h p space z c) ([], {}) cands = (rs, seen)"
    by (cases "foldl (scanStep h p space z c) ([], {}) cands")
  from foldl_scanStep_provenance [OF f, of "set cands"] assms show ?thesis
    by (simp add: scanCandidates_def f)
qed

text \<open>An element that does not overlap the zone leaves the loop's state as it was.\<close>

lemma foldl_scanStep_filter:
  "foldl (scanStep h p space z c) st (filter (overlapsZone p space z c) cands) =
   foldl (scanStep h p space z c) st cands"
proof (induction cands arbitrary: st)
  case Nil
  show ?case by simp
next
  case (Cons el cands)
  show ?case
  proof (cases "overlapsZone p space z c el")
    case True
    then show ?thesis by (simp add: Cons.IH)
  next
    case False
    then have "\<not> inZone h p space z c el" using inZone_overlapsZone by blast
    then have "scanStep h p space z c st el = st" by (cases st) (simp add: scanStep_def)
    with False show ?thesis by (simp add: Cons.IH)
  qed
qed

lemma scanCandidates_filter:
  "scanCandidates h p space z c (filter (overlapsZone p space z c) cands) =
   scanCandidates h p space z c cands"
  by (simp add: scanCandidates_def foldl_scanStep_filter)

text \<open>
  Claim C5. The list returned by one zone scan has no selector twice; each of its entries
  is the entry of a candidate element whose bounding rectangle, shifted by the scroll
  offset in page space and taken as it is in viewport space, overlaps the mapped zone
  rectangle under the axis-aligned test; and the scan returns the same list when the
  candidates that do not overlap the zone are removed beforehand.
\<close>

theorem C5_scan_distinct_and_overlapping:
  "distinct (map eiSelector (evaluateScan h p space z c))
   \<and> (\<forall>r \<in> set (evaluateScan h p space z c).
        \<exists>el \<in> set (candidatesOf p). overlapsZone p space z c el \<and> r = entryOf h el)
   \<and> evaluateScan h p space z c =
       sortWith (compareEntries h)
         (scanCandidates h p space z c (filter (overlapsZone p space z c) (candidatesOf p)))
   \<and> overlapsZone p space z c el =
       (case elRect el of None \<Rightarrow> False
        | Some r \<Rightarrow>
           rLeft (zoneRect p space z c) < rRight (rectInSpace p space r)
           \<and> rRight (zoneRect p space z c) > rLeft (rectInSpace p space r)
           \<and> rTop (zoneRect p space z c) < rBottom (rectInSpace p space r)
           \<and> rBottom (zoneRect p space z c) > rTop (rectInSpace p space r))
   \<and> rectInSpace p Page r =
       \<lparr>rLeft = dLeft r + scrollX p, rRight = dRight r + scrollX p,
        rTop = dTop r + scrollY p, rBottom = dBottom r + scrollY p\<rparr>
   \<and> rectInSpace p Viewport r =
       \<lparr>rLeft = dLeft r, rRight = dRight r, rTop = dTop r, rBottom = dBottom r\<rparr>"
proof -
  have a: "distinct (map eiSelector (evaluateScan h p space z c))"
    by (simp add: evaluateScan_def distinct_map_sortWith distinct_scanCandidates)
  have b: "\<forall>r \<in> set (evaluateScan h p space z c).
        \<exists>el \<in> set (candidatesOf p). overlapsZone p space z c el \<and> r = entryOf h el"
    using scanCandidates_provenance inZone_overlapsZone
    by (fastforce simp: evaluateScan_def set_sortWith)
  have c: "evaluateScan h p space z c =
       sortWith (compareEntries h)
         (scanCandidates h p space z c (filter (overlapsZone p space z c) (candidatesOf p)))"
    by (simp add: evaluateScan_def scanCandidates_filter)
  have d: "overlapsZone p space z c el =
       (case elRect el of None \<Rightarrow> False
        | Some r \<Rightarrow>
           rLeft (zoneRect p space z c) < rRight (rectInSpace p space r)
           \<and> rRight (zoneRect p space z c) > rLeft (rectInSpace p space r)
           \<and> rTop (zoneRect p space z c) < rBottom (rectInSpace p space r)
           \<and> rBottom (zoneRect p space z c) > rTop (rectInSpace p space r))"
    by (simp add: overlapsZone_def intersects_def split: option.splits)
  have e: "rectInSpace p Page r =
       \<lparr>rLeft = dLeft r + scrollX p, rRight = dRight r + scrollX p,
        rTop = dTop r + scrollY p, rBottom = dBottom r + scrollY p\<rparr>"
    by (simp add: rectInSpace_def)
  have f: "rectInSpace p Viewport r =
       \<lparr>rLeft = dLeft r, rRight = dRight r, rTop = dTop r, rBottom = dBottom r\<rparr>"
    by (simp add: rectInSpace_def)
  from a b c d e f show ?thesis by (intro conjI)
qed

lemma example_scan: "evaluateScan exampleHost examplePage Viewport exampleZoneB2 100 = [exampleEntry]"
  by code_simp

lemma example_candidates: "candidatesOf examplePage = [exampleButton 1 ''go'' 120 120, exampleButton 2 ''go'' 130 160,
                            exampleButton 3 ''far'' 500 500]"
  by code_simp

lemma example_overlaps: "overlapsZone examplePage Viewport exampleZoneB2 100 (exampleButton 1 ''go'' 120 120)"
  by code_simp

lemma example_entryOf: "entryOf exampleHost (exampleButton 1 ''go'' 120 120) = exampleEntry"
  by code_simp

theorem C5_scan_distinct_and_overlapping_witness:
  "evaluateScan exampleHost examplePage Viewport exampleZoneB2 100 = [exampleEntry]
   \<and> distinct (map eiSelector (evaluateScan exampleHost examplePage Viewport exampleZoneB2 100))
   \<and> exampleEntry \<in> set (evaluateScan exampleHost examplePage Viewport exampleZoneB2 100)
   \<and> (\<exists>el \<in> set (candidatesOf examplePage).
         overlapsZone examplePage Viewport exampleZoneB2 100 el
         \<and> exampleEntry = entryOf exampleHost el)"
proof -
  note t = C5_scan_distinct_and_overlapping [of exampleHost examplePage Viewport exampleZoneB2 100]
  have m: "exampleEntry \<in> set (evaluateScan exampleHost examplePage Viewport exampleZoneB2 100)"
    by (simp add: example_scan)
  from t have d: "distinct (map eiSelector
      (evaluateScan exampleHost examplePage Viewport exampleZoneB2 100))" by blast
  from t m have "\<exists>el \<in> set (candidatesOf examplePage).
         overlapsZone examplePage Viewport exampleZoneB2 100 el
         \<and> exampleEntry = entryOf exampleHost el" by blast
  with example_scan d m show ?thesis by blast
qed

section \<open>Properties of the retry loop\<close>

lemma scanLoop_3:
  "scanLoop h w space z zn (Suc (Suc (Suc 0))) le ev =
     (case evalOutcome w (Suc (Suc (Suc 0))) of
        Inr page \<Rightarrow> (Inr \<lparr>zrZone = zn, zrElements = evaluateScan h page space z CELL_SIZE\<rparr>,
                     ev @ [domWait, Evaluate])
      | Inl e \<Rightarrow> (Inl e, ev @ [domWait, Evaluate]))"
  by (subst scanLoop.simps)
    (simp add: maxAttempts_def waitForStableDom_def domWait_def Let_def split: sum.splits)

lemma scanLoop_2:
  "scanLoop h w space z zn (Suc (Suc 0)) le ev =
     (case evalOutcome w (Suc (Suc 0)) of
        Inr page \<Rightarrow> (Inr \<lparr>zrZone = zn, zrElements = evaluateScan h page space z CELL_SIZE\<rparr>,
                     ev @ [domWait, Evaluate])
      | Inl e \<Rightarrow>
          if \<not> isRecoverableScanError e then (Inl e, ev @ [domWait, Evaluate])
          else scanLoop h w space z zn (Suc (Suc (Suc 0))) (Some e) (ev @ [domWait, Evaluate, domWait, Sleep 400]))"
  by (subst scanLoop.simps)
    (simp add: maxAttempts_def waitForStableDom_def domWait_def Let_def split: sum.splits)

lemma scanLoop_1:
  "scanLoop h w space z zn (Suc 0) le ev =
     (case evalOutcome w (Suc 0) of
        Inr page \<Rightarrow> (Inr \<lparr>zrZone = zn, zrElements = evaluateScan h page space z CELL_SIZE\<rparr>,
                     ev @ [domWait, Evaluate])
      | Inl e \<Rightarrow>
          if \<not> isRecoverableScanError e then (Inl e, ev @ [domWait, Evaluate])
          else scanLoop h w space z zn (Suc (Suc 0)) (Some e) (ev @ [domWait, Evaluate, domWait, Sleep 200]))"
  by (subst scanLoop.simps)
    (simp add: maxAttempts_def waitForStableDom_def domWait_def Let_def split: sum.splits)

lemmas scanLoop_unrolled = scanLoop_1 scanLoop_2 scanLoop_3

lemma run_parsed:
  assumes "parseCell (zoneStart zn) = Inr a" "parseCell (zoneEnd zn) = Inr b"
  shows "runSingleZoneScanWithRetry h w zn space =
     scanLoop h w space
       \<lparr>zMinCol = min (col a) (col b), zMaxCol = max (col a) (col b),
        zMinRow = min (row a) (row b), zMaxRow = max (row a) (row b)\<rparr>
       (toUpperCase (zoneStart zn) @ '':'' @ toUpperCase (zoneEnd zn)) 1 None []"
  using assms by (simp add: runSingleZoneScanWithRetry_def Let_def)

text \<open>The events of a scan are one of four lists: no attempt, or one, two or three of them.\<close>

lemma scanLoop_events:
  "snd (scanLoop h w space z zn 1 None []) \<in>
     {[domWait, Evaluate],
      [domWait, Evaluate, domWait, Sleep 200, domWait, Evaluate],
      [domWait, Evaluate, domWait, Sleep 200, domWait, Evaluate,
       domWait, Sleep 400, domWait, Evaluate]}"
  by (simp add: scanLoop_unrolled numeral_2_eq_2 numeral_3_eq_3 split: sum.splits)

lemma run_events:
  "snd (runSingleZoneScanWithRetry h w zn space) \<in>
     {[], [domWait, Evaluate],
      [domWait, Evaluate, domWait, Sleep 200, domWait, Evaluate],
      [domWait, Evaluate, domWait, Sleep 200, domWait, Evaluate,
       domWait, Sleep 400, domWait, Evaluate]}"
proof (cases "parseCell (zoneStart zn)")
  case (Inl e)
  then show ?thesis by (simp add: runSingleZoneScanWithRetry_def)
next
  case a: (Inr a)
  show ?thesis
  proof (cases "parseCell (zoneEnd zn)")
    case (Inl e)
    with a show ?thesis by (simp add: runSingleZoneScanWithRetry_def)
  next
    case (Inr b)
    show ?thesis using scanLoop_events unfolding run_parsed [OF a Inr] by blast
  qed
qed

lemma attemptsMade_lists:
  "attemptsMade [] = 0"
  "attemptsMade [domWait, Evaluate] = 1"
  "attemptsMade [domWait, Evaluate, domWait, Sleep 200, domWait, Evaluate] = 2"
  "attemptsMade [domWait, Evaluate, domWait, Sleep 200, domWait, Evaluate,
       domWait, Sleep 400, domWait, Evaluate] = 3"
  by (simp_all add: attemptsMade_def domWait_def)

lemma waitsBeforeEvaluate_lists:
  "waitsBeforeEvaluate []"
  "waitsBeforeEvaluate [domWait, Evaluate]"
  "waitsBeforeEvaluate [domWait, Evaluate, domWait, Sleep 200, domWait, Evaluate]"
  "waitsBeforeEvaluate [domWait, Evaluate, domWait, Sleep 200, domWait, Evaluate,
       domWait, Sleep 400, domWait, Evaluate]"
  by (simp_all add: domWait_def)

lemma run_events_cases:
  "snd (runSingleZoneScanWithRetry h w zn space) = []
   \<or> snd (runSingleZoneScanWithRetry h w zn space) = [domWait, Evaluate]
   \<or> snd (runSingleZoneScanWithRetry h w zn space) =
        [domWait, Evaluate, domWait, Sleep 200, domWait, Evaluate]
   \<or> snd (runSingleZoneScanWithRetry h w zn space) =
        [domWait, Evaluate, domWait, Sleep 200, domWait, Evaluate,
         domWait, Sleep 400, domWait, Evaluate]"
  using run_events [of h w zn space] by simp

lemma run_attempts: "attemptsMade (snd (runSingleZoneScanWithRetry h w zn space)) \<le> 3"
proof -
  have "attemptsMade ev \<le> 3"
    if "ev = [] \<or> ev = [domWait, Evaluate]
        \<or> ev = [domWait, Evaluate, domWait, Sleep 200, domWait, Evaluate]
        \<or> ev = [domWait, Evaluate, domWait, Sleep 200, domWait, Evaluate,
                 domWait, Sleep 400, domWait, Evaluate]" for ev
    using that by (auto simp: attemptsMade_lists)
  from this [OF run_events_cases] show ?thesis .
qed

lemma run_waits: "waitsBeforeEvaluate (snd (runSingleZoneScanWithRetry h w zn space))"
proof -
  have "waitsBeforeEvaluate ev"
    if "ev = [] \<or> ev = [domWait, Evaluate]
        \<or> ev = [domWait, Evaluate, domWait, Sleep 200, domWait, Evaluate]
        \<or> ev = [domWait, Evaluate, domWait, Sleep 200, domWait, Evaluate,
                 domWait, Sleep 400, domWait, Evaluate]" for ev
    using that waitsBeforeEvaluate_lists by (elim disjE) (simp_all only:)
  from this [OF run_events_cases] show ?thesis .
qed

lemma scanLoop_waitOk:
  "scanLoop h (w\<lparr>waitOk := f\<rparr>) space z zn (Suc 0) le ev = scanLoop h w space z zn (Suc 0) le ev"
  by (simp add: scanLoop_unrolled split: sum.splits)

lemma run_waitOk:
  "runSingleZoneScanWithRetry h (w\<lparr>waitOk := f\<rparr>) zn space = runSingleZoneScanWithRetry h w zn space"
  by (simp add: runSingleZoneScanWithRetry_def Let_def scanLoop_waitOk split: sum.splits)

text \<open>
  Claim C6. A zone scan makes at most three attempts; each \<open>page.evaluate\<close> directly
  follows a wait for \<open>domcontentloaded\<close> with a timeout of 3000 ms, and whether the waits
  succeed does not change the scan. An error that is not transient ends the scan at once
  with that error; after a transient error of attempt \<open>n\<close> the scan waits again, sleeps
  \<open>200 \<times> n\<close> ms and tries again; when all three attempts fail, the first two
  transiently, the error of the third attempt is the result.
\<close>

theorem C6_retry_transient_errors:
  "attemptsMade (snd (runSingleZoneScanWithRetry h w zn space)) \<le> 3
   \<and> waitsBeforeEvaluate (snd (runSingleZoneScanWithRetry h w zn space))
   \<and> domWait = WaitForLoadState ''domcontentloaded'' 3000
   \<and> runSingleZoneScanWithRetry h (w\<lparr>waitOk := f\<rparr>) zn space =
       runSingleZoneScanWithRetry h w zn space
   \<and> (parseCell (zoneStart zn) = Inr a \<and> parseCell (zoneEnd zn) = Inr b
        \<and> evalOutcome w 1 = Inl e1 \<and> \<not> isRecoverableScanError e1
      \<longrightarrow> runSingleZoneScanWithRetry h w zn space = (Inl e1, [domWait, Evaluate]))
   \<and> (parseCell (zoneStart zn) = Inr a \<and> parseCell (zoneEnd zn) = Inr b
        \<and> evalOutcome w 1 = Inl e1 \<and> isRecoverableScanError e1
        \<and> evalOutcome w 2 = Inl e2 \<and> \<not> isRecoverableScanError e2
      \<longrightarrow> runSingleZoneScanWithRetry h w zn space =
            (Inl e2, [domWait, Evaluate, domWait, Sleep (200 * 1), domWait, Evaluate]))
   \<and> (parseCell (zoneStart zn) = Inr a \<and> parseCell (zoneEnd zn) = Inr b
        \<and> evalOutcome w 1 = Inl e1 \<and> isRecoverableScanError e1
        \<and> evalOutcome w 2 = Inl e2 \<and> isRecoverableScanError e2
        \<and> evalOutcome w 3 = Inl e3
      \<longrightarrow> runSingleZoneScanWithRetry h w zn space =
            (Inl e3, [domWait, Evaluate, domWait, Sleep (200 * 1), domWait, Evaluate,
                      domWait, Sleep (200 * 2), domWait, Evaluate]))
   \<and> (parseCell (zoneStart zn) = Inr a \<and> parseCell (zoneEnd zn) = Inr b
        \<and> evalOutcome w 1 = Inl e1 \<and> isRecoverableScanError e1
        \<and> evalOutcome w 2 = Inr page
      \<longrightarrow> (\<exists>r. runSingleZoneScanWithRetry h w zn space =
            (Inr r, [domWait, Evaluate, domWait, Sleep (200 * 1), domWait, Evaluate])))
   \<and> (parseCell (zoneStart zn) = Inr a \<and> parseCell (zoneEnd zn) = Inr b
        \<and> evalOutcome w 1 = Inr page
      \<longrightarrow> (\<exists>r. runSingleZoneScanWithRetry h w zn space = (Inr r, [domWait, Evaluate])))"
proof -
  have p3: "parseCell (zoneStart zn) = Inr a \<and> parseCell (zoneEnd zn) = Inr b
        \<and> evalOutcome w 1 = Inl e1 \<and> \<not> isRecoverableScanError e1
      \<longrightarrow> runSingleZoneScanWithRetry h w zn space = (Inl e1, [domWait, Evaluate])"
    by (auto simp: run_parsed scanLoop_unrolled numeral_2_eq_2 numeral_3_eq_3)
  have p4: "parseCell (zoneStart zn) = Inr a \<and> parseCell (zoneEnd zn) = Inr b
        \<and> evalOutcome w 1 = Inl e1 \<and> isRecoverableScanError e1
        \<and> evalOutcome w 2 = Inl e2 \<and> \<not> isRecoverableScanError e2
      \<longrightarrow> runSingleZoneScanWithRetry h w zn space =
            (Inl e2, [domWait, Evaluate, domWait, Sleep (200 * 1), domWait, Evaluate])"
    by (auto simp: run_parsed scanLoop_unrolled numeral_2_eq_2 numeral_3_eq_3)
  have p5: "parseCell (zoneStart zn) = Inr a \<and> parseCell (zoneEnd zn) = Inr b
        \<and> evalOutcome w 1 = Inl e1 \<and> isRecoverableScanError e1
        \<and> evalOutcome w 2 = Inl e2 \<and> isRecoverableScanError e2
        \<and> evalOutcome w 3 = Inl e3
      \<longrightarrow> runSingleZoneScanWithRetry h w zn space =
            (Inl e3, [domWait, Evaluate, domWait, Sleep (200 * 1), domWait, Evaluate,
                      domWait, Sleep (200 * 2), domWait, Evaluate])"
    by (auto simp: run_parsed scanLoop_unrolled numeral_2_eq_2 numeral_3_eq_3)
  have p6: "parseCell (zoneStart zn) = Inr a \<and> parseCell (zoneEnd zn) = Inr b
        \<and> evalOutcome w 1 = Inl e1 \<and> isRecoverableScanError e1
        \<and> evalOutcome w 2 = Inr page
      \<longrightarrow> (\<exists>r. runSingleZoneScanWithRetry h w zn space =
            (Inr r, [domWait, Evaluate, domWait, Sleep (200 * 1), domWait, Evaluate]))"
    by (auto simp: run_parsed scanLoop_unrolled numeral_2_eq_2 numeral_3_eq_3)
  have p7: "parseCell (zoneStart zn) = Inr a \<and> parseCell (zoneEnd zn) = Inr b
        \<and> evalOutcome w 1 = Inr page
      \<longrightarrow> (\<exists>r. runSingleZoneScanWithRetry h w zn space = (Inr r, [domWait, Evaluate]))"
    by (auto simp: run_parsed scanLoop_unrolled numeral_2_eq_2 numeral_3_eq_3)
  from run_attempts run_waits domWait_def run_waitOk p3 p4 p5 p6 p7 show ?thesis by (intro conjI)
qed

lemma example_parse_start: "parseCell (zoneStart exampleZone) = Inr \<lparr>col = 1, row = 1\<rparr>"
  by code_simp

lemma example_parse_end: "parseCell (zoneEnd exampleZone) = Inr \<lparr>col = 3, row = 3\<rparr>"
  by code_simp

lemma rec_contextDestroyed: "isRecoverableScanError contextDestroyed"
  by code_simp

lemma rec_frameDetached: "isRecoverableScanError frameDetached"
  by code_simp

lemma rec_typeError: "\<not> isRecoverableScanError typeError"
  by code_simp


theorem C6_retry_transient_errors_witness:
  "runSingleZoneScanWithRetry exampleHost (failingWorld typeError frameDetached frameDetached)
      exampleZone Viewport = (Inl typeError, [domWait, Evaluate])
   \<and> runSingleZoneScanWithRetry exampleHost (failingWorld contextDestroyed typeError frameDetached)
      exampleZone Viewport =
        (Inl typeError, [domWait, Evaluate, domWait, Sleep (200 * 1), domWait, Evaluate])
   \<and> runSingleZoneScanWithRetry exampleHost
        (failingWorld contextDestroyed frameDetached contextDestroyed) exampleZone Viewport =
        (Inl contextDestroyed,
         [domWait, Evaluate, domWait, Sleep (200 * 1), domWait, Evaluate,
          domWait, Sleep (200 * 2), domWait, Evaluate])
   \<and> (\<exists>r. runSingleZoneScanWithRetry exampleHost (recoveringWorld frameDetached)
        exampleZone Viewport =
        (Inr r, [domWait, Evaluate, domWait, Sleep (200 * 1), domWait, Evaluate]))
   \<and> (\<exists>r. runSingleZoneScanWithRetry exampleHost steadyWorld exampleZone Viewport =
        (Inr r, [domWait, Evaluate]))"
proof -
  note pa = example_parse_start and pb = example_parse_end
  have a: "runSingleZoneScanWithRetry exampleHost
      (failingWorld typeError frameDetached frameDetached) exampleZone Viewport =
      (Inl typeError, [domWait, Evaluate])"
    using C6_retry_transient_errors [of exampleHost
        "failingWorld typeError frameDetached frameDetached" exampleZone Viewport _
        "\<lparr>col = 1, row = 1\<rparr>" "\<lparr>col = 3, row = 3\<rparr>" typeError]
      pa pb rec_typeError
    by (simp add: failingWorld_def)
  have b: "runSingleZoneScanWithRetry exampleHost
      (failingWorld contextDestroyed typeError frameDetached) exampleZone Viewport =
      (Inl typeError, [domWait, Evaluate, domWait, Sleep (200 * 1), domWait, Evaluate])"
    using C6_retry_transient_errors [of exampleHost
        "failingWorld contextDestroyed typeError frameDetached" exampleZone Viewport _
        "\<lparr>col = 1, row = 1\<rparr>" "\<lparr>col = 3, row = 3\<rparr>" contextDestroyed typeError]
      pa pb rec_typeError rec_contextDestroyed
    by (simp add: failingWorld_def)
  have c: "runSingleZoneScanWithRetry exampleHost
      (failingWorld contextDestroyed frameDetached contextDestroyed) exampleZone Viewport =
      (Inl contextDestroyed,
       [domWait, Evaluate, domWait, Sleep (200 * 1), domWait, Evaluate,
        domWait, Sleep (200 * 2), domWait, Evaluate])"
    using C6_retry_transient_errors [of exampleHost
        "failingWorld contextDestroyed frameDetached contextDestroyed" exampleZone Viewport _
        "\<lparr>col = 1, row = 1\<rparr>" "\<lparr>col = 3, row = 3\<rparr>" contextDestroyed frameDetached
        contextDestroyed]
      pa pb rec_frameDetached rec_contextDestroyed
    by (simp add: failingWorld_def)
  have d: "\<exists>r. runSingleZoneScanWithRetry exampleHost (recoveringWorld frameDetached)
        exampleZone Viewport =
        (Inr r, [domWait, Evaluate, domWait, Sleep (200 * 1), domWait, Evaluate])"
    using C6_retry_transient_errors [of exampleHost
        "recoveringWorld frameDetached" exampleZone Viewport _
        "\<lparr>col = 1, row = 1\<rparr>" "\<lparr>col = 3, row = 3\<rparr>" frameDetached _ _ examplePage]
      pa pb rec_frameDetached
    by (simp add: recoveringWorld_def)
  have e: "\<exists>r. runSingleZoneScanWithRetry exampleHost steadyWorld exampleZone Viewport =
        (Inr r, [domWait, Evaluate])"
    using C6_retry_transient_errors [of exampleHost steadyWorld exampleZone Viewport _
        "\<lparr>col = 1, row = 1\<rparr>" "\<lparr>col = 3, row = 3\<rparr>" _ _ _ examplePage]
      pa pb
    by (simp add: steadyWorld_def)
  from a b c d e show ?thesis by (intro conjI)
qed

section \<open>Case and white space in labels\<close>

lemma isLower_bounds: "isLower c \<Longrightarrow> 97 \<le> (of_char c :: nat) \<and> (of_char c :: nat) \<le> 122"
  by (simp add: isLower_def)


lemma of_char_upperChar:
  assumes "isLower c"
  shows "(of_char (upperChar c) :: nat) = of_char c - 32"
proof -
  have "(of_char c :: nat) - 32 < 256" using isLower_bounds [OF assms] by linarith
  then show ?thesis using assms by (simp add: upperChar_def)
qed


lemma isSpace_bounds: "isSpace c \<Longrightarrow> (of_char c :: nat) \<le> 32"
  by (auto simp: isSpace_def)

lemma isSpace_upperChar: "isSpace (upperChar c) = isSpace c"
proof (cases "isLower c")
  case True
  have "65 \<le> (of_char (upperChar c) :: nat)"
    using isLower_bounds [OF True] of_char_upperChar [OF True] by linarith
  then have "\<not> isSpace (upperChar c)" using isSpace_bounds [of "upperChar c"] by linarith
  moreover have "\<not> isSpace c" using isLower_bounds [OF True] isSpace_bounds [of c] by linarith
  ultimately show ?thesis by simp
next
  case False
  then show ?thesis by (simp add: upperChar_def)
qed

















section \<open>Properties of the element matcher\<close>




lemma toLowerCase_append: "toLowerCase (a @ b) = toLowerCase a @ toLowerCase b"
  by (simp add: toLowerCase_def)






lemma count_total:
  "countIn core tokens + countAuxOnly core aux tokens \<le> length tokens"
proof -
  have "length (filter (\<lambda>t. strIncludes core t) tokens)
      + length (filter (\<lambda>t. \<not> strIncludes core t \<and> strIncludes aux t) tokens) \<le> length tokens"
    by (induction tokens) auto
  then show ?thesis by (simp add: countIn_def countAuxOnly_def)
qed




lemma baseScore_nonneg: "0 \<le> baseScore p ts e"
  by (simp add: baseScore_def)




















lemma example_findBest_none:
  "findBestInteractiveElement [exampleElement ''element_2'' ''Order history'' ''critical'']
     ''submit'' = None"
  by code_simp



end
